theory Spec2Isabelle
  imports Main "HOL-Library.Char_ord" "HOL-Library.List_Lexorder" "HOL-Library.Sublist"
    "HOL-Library.Multiset"
begin

section \<open>Values, errors and the Python primitives the scripts use\<close>

text \<open>
  Both scripts work on the values that \<^verbatim>\<open>json.load\<close> and \<^verbatim>\<open>yaml.safe_load\<close> return.
  A \<open>char\<close> stands for one code point (texts are taken from the code points below 256),
  a dict is an association list in insertion order whose keys are strings, and floats and
  YAML timestamps are left out of the value type.
\<close>

datatype pyval =
    PNone
  | PBool bool
  | PInt int
  | PStr string
  | PList "pyval list"
  | PDict "(string \<times> pyval) list"

text \<open>Every exception of the source is a value of this type; \<open>Inl\<close> carries it.\<close>

datatype error = AttributeError | TypeError | KeyError | IndexError | StopIteration | OSError

text \<open>Python truth value testing: \<^verbatim>\<open>if x\<close>, \<^verbatim>\<open>not x\<close>, \<^verbatim>\<open>x or y\<close>.\<close>

fun truthy :: "pyval \<Rightarrow> bool" where
  "truthy PNone = False"
| "truthy (PBool b) = b"
| "truthy (PInt i) = (i \<noteq> 0)"
| "truthy (PStr s) = (s \<noteq> [])"
| "truthy (PList l) = (l \<noteq> [])"
| "truthy (PDict d) = (d \<noteq> [])"

text \<open>\<^verbatim>\<open>d.get(k, default)\<close> on a value that is known to be a dict.\<close>

definition dict_get :: "(string \<times> pyval) list \<Rightarrow> string \<Rightarrow> pyval \<Rightarrow> pyval" where
  "dict_get d k dflt = (case map_of d k of None \<Rightarrow> dflt | Some v \<Rightarrow> v)"

text \<open>Sequencing of steps that may raise: the first exception ends the computation.\<close>

definition ebind :: "error + 'a \<Rightarrow> ('a \<Rightarrow> error + 'b) \<Rightarrow> error + 'b" where
  "ebind m f = (case m of Inl e \<Rightarrow> Inl e | Inr x \<Rightarrow> f x)"

text \<open>\<^verbatim>\<open>x.get(k, default)\<close> on any value: only a dict has the method.\<close>

fun py_get :: "pyval \<Rightarrow> string \<Rightarrow> pyval \<Rightarrow> error + pyval" where
  "py_get (PDict d) k dflt = Inr (dict_get d k dflt)"
| "py_get PNone k dflt = Inl AttributeError"
| "py_get (PBool b) k dflt = Inl AttributeError"
| "py_get (PInt i) k dflt = Inl AttributeError"
| "py_get (PStr s) k dflt = Inl AttributeError"
| "py_get (PList l) k dflt = Inl AttributeError"

text \<open>
  \<^verbatim>\<open>s in x\<close> for a string \<open>s\<close>: substring test on a string, membership in a list, key
  test on a dict, \<^verbatim>\<open>TypeError\<close> on None, booleans and integers.
\<close>

fun str_in :: "string \<Rightarrow> pyval \<Rightarrow> error + bool" where
  "str_in s (PStr t) = Inr (sublist s t)"
| "str_in s (PList l) = Inr (PStr s \<in> set l)"
| "str_in s (PDict d) = Inr (s \<in> set (map fst d))"
| "str_in s PNone = Inl TypeError"
| "str_in s (PBool b) = Inl TypeError"
| "str_in s (PInt i) = Inl TypeError"

text \<open>\<^verbatim>\<open>x[k]\<close> with a string key: a dict answers, a missing key is \<^verbatim>\<open>KeyError\<close>.\<close>

fun py_item :: "pyval \<Rightarrow> string \<Rightarrow> error + pyval" where
  "py_item (PDict d) k = (case map_of d k of None \<Rightarrow> Inl KeyError | Some v \<Rightarrow> Inr v)"
| "py_item PNone k = Inl TypeError"
| "py_item (PBool b) k = Inl TypeError"
| "py_item (PInt i) k = Inl TypeError"
| "py_item (PStr s) k = Inl TypeError"
| "py_item (PList l) k = Inl TypeError"

text \<open>
  \<^verbatim>\<open>x[0]\<close>: the first element of a list, the first character of a string; a dict has no
  key \<open>0\<close> (its keys are strings).
\<close>

fun py_first :: "pyval \<Rightarrow> error + pyval" where
  "py_first (PList l) = (case l of [] \<Rightarrow> Inl IndexError | x # _ \<Rightarrow> Inr x)"
| "py_first (PStr s) = (case s of [] \<Rightarrow> Inl IndexError | c # _ \<Rightarrow> Inr (PStr [c]))"
| "py_first (PDict d) = Inl KeyError"
| "py_first PNone = Inl TypeError"
| "py_first (PBool b) = Inl TypeError"
| "py_first (PInt i) = Inl TypeError"

text \<open>\<^verbatim>\<open>d[k] = v\<close>: an existing key keeps its position, a new key goes last.\<close>

fun dict_set :: "(string \<times> pyval) list \<Rightarrow> string \<Rightarrow> pyval \<Rightarrow> (string \<times> pyval) list" where
  "dict_set [] k v = [(k, v)]"
| "dict_set ((k', v') # d) k v =
     (if k' = k then (k, v) # d else (k', v') # dict_set d k v)"

text \<open>
  The pieces of \<^verbatim>\<open>s.split(c, 1)\<close> when \<open>c\<close> occurs in \<open>s\<close>, of \<^verbatim>\<open>s.split(c)[0]\<close> and of
  \<^verbatim>\<open>s.split(c)[-1]\<close>.
\<close>

definition before_first :: "char \<Rightarrow> string \<Rightarrow> string" where
  "before_first c s = takeWhile (\<lambda>x. x \<noteq> c) s"

definition after_first :: "char \<Rightarrow> string \<Rightarrow> string" where
  "after_first c s = drop 1 (dropWhile (\<lambda>x. x \<noteq> c) s)"

definition after_last :: "char \<Rightarrow> string \<Rightarrow> string" where
  "after_last c s = rev (takeWhile (\<lambda>x. x \<noteq> c) (rev s))"

text \<open>\<^verbatim>\<open>str.lower()\<close> on the code points below 256.\<close>

definition lower_char :: "char \<Rightarrow> char" where
  "lower_char c =
     (let n = (of_char c :: nat)
      in if (65 \<le> n \<and> n \<le> 90) \<or> (192 \<le> n \<and> n \<le> 222 \<and> n \<noteq> 215)
         then char_of (n + 32) else c)"

definition lower :: "string \<Rightarrow> string" where
  "lower s = map lower_char s"

text \<open>Decimal numerals, as \<^verbatim>\<open>str\<close> and f-strings print an integer.\<close>

definition digit_char :: "nat \<Rightarrow> char" where
  "digit_char d = char_of (48 + d)"

fun str_nat :: "nat \<Rightarrow> string" where
  "str_nat n = (if n < 10 then [digit_char n] else str_nat (n div 10) @ [digit_char (n mod 10)])"

declare str_nat.simps [simp del]

definition str_int :: "int \<Rightarrow> string" where
  "str_int i = (if i < 0 then CHR ''-'' # str_nat (nat (- i)) else str_nat (nat i))"

text \<open>
  \<^verbatim>\<open>str(x)\<close>. The text Python prints for a list or a dict (their \<^verbatim>\<open>repr\<close>) is the
  parameter \<open>rc\<close>.
\<close>

fun py_str :: "(pyval \<Rightarrow> string) \<Rightarrow> pyval \<Rightarrow> string" where
  "py_str rc (PStr s) = s"
| "py_str rc PNone = ''None''"
| "py_str rc (PBool b) = (if b then ''True'' else ''False'')"
| "py_str rc (PInt i) = str_int i"
| "py_str rc (PList l) = rc (PList l)"
| "py_str rc (PDict d) = rc (PDict d)"

text \<open>
  \<^verbatim>\<open>a or b\<close>: the left operand if it is truthy, otherwise the right operand, which is only
  then evaluated. \<^verbatim>\<open>a or b or c\<close> is \<open>or_else a (or_else b c)\<close>.
\<close>

definition or_else :: "error + pyval \<Rightarrow> error + pyval \<Rightarrow> error + pyval" where
  "or_else a b = ebind a (\<lambda>x. if truthy x then Inr x else b)"

section \<open>casaos\_dash.py: the metadata resolver\<close>

text \<open>
  Lines 319, 337 and 343 of \<^verbatim>\<open>extract_compose_metadata\<close>, the locale selection applied to
  a title, description or tagline that is a dict:
  \<^verbatim>\<open>title.get('en_US', title.get('en_us', title.get('en', '')))\<close>.
\<close>

definition select_locale :: "(string \<times> pyval) list \<Rightarrow> pyval" where
  "select_locale t =
     dict_get t ''en_US'' (dict_get t ''en_us'' (dict_get t ''en'' (PStr '''')))"

text \<open>
  Lines 317-319 and 335-337: a raw value that is a dict is replaced by its locale
  selection, any other value is kept.
\<close>

definition localized :: "pyval \<Rightarrow> pyval" where
  "localized v = (case v of PDict t \<Rightarrow> select_locale t | _ \<Rightarrow> v)"

text \<open>
  Lines 299-300: \<^verbatim>\<open>main_service = next(iter(services.values())) if services else {}\<close>.
\<close>

definition main_service_of :: "pyval \<Rightarrow> error + pyval" where
  "main_service_of services =
     (if truthy services
      then (case services of
              PDict d \<Rightarrow> (case d of [] \<Rightarrow> Inl StopIteration | (k, v) # _ \<Rightarrow> Inr v)
            | _ \<Rightarrow> Inl AttributeError)
      else Inr (PDict []))"

text \<open>
  The loop of lines 307-310 (labels) and of lines 417-420 (environment): every entry that
  contains \<^verbatim>\<open>=\<close> is split once and stored under its key.
\<close>

fun key_values :: "pyval list \<Rightarrow> (string \<times> pyval) list \<Rightarrow> error + (string \<times> pyval) list" where
  "key_values [] acc = Inr acc"
| "key_values (x # xs) acc =
     (case str_in ''='' x of
        Inl e \<Rightarrow> Inl e
      | Inr has \<Rightarrow>
          if has
          then (case x of
                  PStr s \<Rightarrow>
                    key_values xs
                      (dict_set acc (before_first CHR ''='' s) (PStr (after_first CHR ''='' s)))
                | _ \<Rightarrow> Inl AttributeError)
          else key_values xs acc)"

text \<open>Lines 303-312: the service labels as a dict.\<close>

definition label_dict_of :: "pyval \<Rightarrow> error + pyval" where
  "label_dict_of labels =
     (case labels of
        PList l \<Rightarrow> ebind (key_values l []) (\<lambda>d. Inr (PDict d))
      | _ \<Rightarrow> Inr (if truthy labels then labels else PDict []))"

text \<open>
  The chain used for title, icon, description and author (lines 321-325, 328-332, 347-351,
  387-391): \<^verbatim>\<open>v or label_dict.get(lk) or conf_data.get(ck, dflt)\<close>.
\<close>

definition prio :: "pyval \<Rightarrow> pyval \<Rightarrow> string \<Rightarrow> pyval \<Rightarrow> string \<Rightarrow> pyval \<Rightarrow> error + pyval" where
  "prio v label_dict lk conf_data ck dflt =
     or_else (Inr v) (or_else (py_get label_dict lk PNone) (py_get conf_data ck dflt))"

text \<open>Lines 335-345: the description of the vendor block, with the tagline as fallback.\<close>

definition description_of :: "(string \<times> pyval) list \<Rightarrow> pyval" where
  "description_of ci =
     (let description = localized (dict_get ci ''description'' PNone)
      in if \<not> truthy description
         then (case dict_get ci ''tagline'' PNone of
                 PDict t \<Rightarrow> select_locale t
               | PStr s \<Rightarrow> PStr s
               | _ \<Rightarrow> description)
         else description)"

text \<open>Lines 365-377, in the order of the dict literal.\<close>

definition category_mapping :: "(string \<times> string list) list" where
  "category_mapping =
    [(''Media'', [''plex'', ''jellyfin'', ''emby'', ''kodi'', ''sonarr'', ''radarr'', ''lidarr'',
                  ''bazarr'', ''tautulli'', ''overseerr'', ''jellyseerr'', ''navidrome'']),
     (''Downloader'', [''qbittorrent'', ''transmission'', ''deluge'', ''sabnzbd'', ''nzbget'',
                       ''jackett'', ''prowlarr'', ''autobrr'']),
     (''Cloud'', [''nextcloud'', ''owncloud'', ''seafile'', ''syncthing'', ''filebrowser'']),
     (''Database'', [''mariadb'', ''mysql'', ''postgres'', ''mongodb'', ''redis'', ''influxdb'']),
     (''Network'', [''pihole'', ''adguard'', ''nginx'', ''traefik'', ''cloudflared'',
                    ''wireguard'', ''ddns'']),
     (''Home Automation'', [''homeassistant'', ''openhab'', ''node-red'', ''mosquitto'',
                            ''zigbee2mqtt'', ''esphome'']),
     (''Utilities'', [''portainer'', ''watchtower'', ''duplicati'', ''resilio'', ''uptime'',
                      ''grafana'', ''netdata'']),
     (''AI'', [''ollama'', ''stable-diffusion'', ''chatgpt'', ''open-webui'', ''anythingllm'',
               ''flowise'', ''dify'']),
     (''Notes'', [''trilium'', ''obsidian'', ''joplin'', ''memos'', ''hedgedoc'', ''logseq'']),
     (''Developer'', [''gitea'', ''jenkins'', ''code-server'', ''vscode'']),
     (''Finance'', [''firefly'', ''actual'', ''budget''])]"

text \<open>Lines 379-382: the first category one of whose keywords occurs in the name.\<close>

definition infer_category :: "string \<Rightarrow> string option" where
  "infer_category app_name =
     map_option fst
       (find (\<lambda>(cat, apps). list_ex (\<lambda>app. sublist app app_name) apps) category_mapping)"

text \<open>Lines 354-384.\<close>

definition resolve_category ::
  "(string \<times> pyval) list \<Rightarrow> pyval \<Rightarrow> pyval \<Rightarrow> pyval \<Rightarrow> error + pyval" where
  "resolve_category ci label_dict conf_data title =
     ebind (prio (dict_get ci ''category'' PNone) label_dict ''casaos.category''
                 conf_data ''category'' PNone) (\<lambda>category.
     ebind (if truthy category then Inr category
            else ebind (or_else (Inr title) (py_get conf_data ''title'' (PStr ''''))) (\<lambda>n.
                 case n of
                   PStr s \<Rightarrow> Inr (case infer_category (lower s) of
                                     Some cat \<Rightarrow> PStr cat
                                   | None \<Rightarrow> category)
                 | _ \<Rightarrow> Inl AttributeError)) (\<lambda>category.
     Inr (if truthy category then category else PStr ''Uncategorized'')))"

text \<open>
  Line 392. The receiver \<^verbatim>\<open>label_dict.get\<close> is looked up first, then the default argument
  is evaluated, whether the label is present or not.
\<close>

definition resolve_version :: "pyval \<Rightarrow> (string \<times> pyval) list \<Rightarrow> error + pyval" where
  "resolve_version label_dict ms =
     (case label_dict of
        PDict ld \<Rightarrow>
          (let image = dict_get ms ''image'' (PStr '''')
           in ebind (str_in '':'' image) (\<lambda>has.
                if has
                then (case image of
                        PStr s \<Rightarrow>
                          Inr (dict_get ld ''casaos.version'' (PStr (after_last CHR '':'' s)))
                      | _ \<Rightarrow> Inl AttributeError)
                else Inr (dict_get ld ''casaos.version'' (PStr ''''))))
      | _ \<Rightarrow> Inl AttributeError)"

text \<open>Lines 395-407; \<open>None\<close> when the metadata gets no \<^verbatim>\<open>port\<close> entry.\<close>

definition extract_port :: "(pyval \<Rightarrow> string) \<Rightarrow> (string \<times> pyval) list \<Rightarrow> error + pyval option" where
  "extract_port rc ms =
     (let ports = dict_get ms ''ports'' (PList [])
      in if truthy ports
         then ebind (py_first ports) (\<lambda>first_port.
                case first_port of
                  PDict fp \<Rightarrow>
                    (let target = dict_get fp ''target'' (dict_get fp ''published'' (PStr ''''))
                     in Inr (Some (PStr (if truthy target then py_str rc target else ''''))))
                | _ \<Rightarrow>
                    (if sublist '':'' (py_str rc first_port)
                     then Inr (Some (PStr (before_first CHR '':'' (py_str rc first_port))))
                     else Inr (Some (PStr (py_str rc first_port)))))
         else Inr None)"

text \<open>Lines 410-411.\<close>

definition extract_volumes :: "(string \<times> pyval) list \<Rightarrow> pyval" where
  "extract_volumes ms =
     (let volumes = dict_get ms ''volumes'' (PList [])
      in if truthy volumes then volumes else PList [])"

text \<open>Lines 414-423.\<close>

definition extract_environment :: "(string \<times> pyval) list \<Rightarrow> error + pyval" where
  "extract_environment ms =
     (case dict_get ms ''environment'' (PList []) of
        PList l \<Rightarrow> ebind (key_values l []) (\<lambda>d. Inr (PDict d))
      | environment \<Rightarrow> Inr environment)"

text \<open>Lines 426-428; \<open>None\<close> when the metadata gets no \<^verbatim>\<open>memory\<close> entry.\<close>

definition extract_memory :: "(string \<times> pyval) list \<Rightarrow> error + pyval option" where
  "extract_memory ms =
     (case map_of ms ''deploy'' of
        None \<Rightarrow> Inr None
      | Some deploy \<Rightarrow>
          ebind (str_in ''resources'' deploy) (\<lambda>has.
            if has
            then ebind (py_item deploy ''resources'') (\<lambda>resources.
                 ebind (py_get resources ''limits'' (PDict [])) (\<lambda>limits.
                 ebind (py_get limits ''memory'' (PStr '''')) (\<lambda>memory.
                 Inr (Some memory))))
            else Inr None))"

text \<open>An optional entry of a dict under construction.\<close>

definition entry :: "string \<Rightarrow> pyval option \<Rightarrow> (string \<times> pyval) list" where
  "entry k v = (case v of None \<Rightarrow> [] | Some x \<Rightarrow> [(k, x)])"

text \<open>
  \<^verbatim>\<open>extract_compose_metadata\<close> (lines 288-430). The result is the \<^verbatim>\<open>metadata\<close> dict in
  insertion order, or the exception that leaves the function.
\<close>

definition extract_compose_metadata ::
  "(pyval \<Rightarrow> string) \<Rightarrow> pyval \<Rightarrow> pyval \<Rightarrow> error + (string \<times> pyval) list" where
  "extract_compose_metadata rc compose_data conf_data =
     (if \<not> truthy compose_data then Inr []
      else
        ebind (py_get compose_data ''x-casaos'' (PDict [])) (\<lambda>casaos_info.
        ebind (py_get compose_data ''services'' (PDict [])) (\<lambda>services.
        ebind (main_service_of services) (\<lambda>main_service.
        case main_service of
          PDict ms \<Rightarrow>
            ebind (label_dict_of (dict_get ms ''labels'' (PList []))) (\<lambda>label_dict.
            case casaos_info of
              PDict ci \<Rightarrow>
                ebind (prio (localized (dict_get ci ''title'' PNone)) label_dict ''casaos.title''
                            conf_data ''title'' (PStr '''')) (\<lambda>title.
                ebind (prio (dict_get ci ''icon'' PNone) label_dict ''casaos.icon''
                            conf_data ''icon'' (PStr '''')) (\<lambda>icon.
                ebind (prio (description_of ci) label_dict ''casaos.description''
                            conf_data ''description'' (PStr '''')) (\<lambda>description.
                ebind (resolve_category ci label_dict conf_data title) (\<lambda>category.
                ebind (prio (dict_get ci ''author'' PNone) label_dict ''casaos.author''
                            conf_data ''author'' (PStr '''')) (\<lambda>author.
                ebind (resolve_version label_dict ms) (\<lambda>version.
                ebind (extract_port rc ms) (\<lambda>port.
                ebind (extract_environment ms) (\<lambda>environment.
                ebind (extract_memory ms) (\<lambda>memory.
                Inr ([(''title'', title), (''icon'', icon), (''description'', description),
                      (''category'', category), (''author'', author), (''version'', version)]
                     @ entry ''port'' port
                     @ [(''volumes'', extract_volumes ms), (''environment'', environment)]
                     @ entry ''memory'' memory))))))))))
            | _ \<Rightarrow> Inl AttributeError)
        | _ \<Rightarrow> Inl AttributeError))))"

text \<open>The first value of a dict in iteration order, \<^verbatim>\<open>list(d.values())[0]\<close>.\<close>

definition first_value :: "(string \<times> pyval) list \<Rightarrow> error + pyval" where
  "first_value d = (case d of [] \<Rightarrow> Inl IndexError | (k, v) # _ \<Rightarrow> Inr v)"

text \<open>A mapping of locale to string: every value is a string.\<close>

definition locale_mapping :: "(string \<times> pyval) list \<Rightarrow> bool" where
  "locale_mapping d = list_all (\<lambda>(k, v). case v of PStr s \<Rightarrow> True | _ \<Rightarrow> False) d"

subsection \<open>The shape of a compose document the resolver is written for\<close>

text \<open>
  The predicates below describe the documents on which no step of the resolver raises: the
  vendor block and the first service are mappings, labels and environment are lists of
  strings or mappings, the image is a string, the ports are a list, and the
  \<^verbatim>\<open>deploy.resources.limits\<close> chain consists of mappings. A title, wherever it comes from,
  is a string or a mapping of locale to string.
\<close>

definition is_str :: "pyval \<Rightarrow> bool" where
  "is_str v = (case v of PStr s \<Rightarrow> True | _ \<Rightarrow> False)"

definition is_dict :: "pyval \<Rightarrow> bool" where
  "is_dict v = (case v of PDict d \<Rightarrow> True | _ \<Rightarrow> False)"

definition str_or_absent :: "(string \<times> pyval) list \<Rightarrow> string \<Rightarrow> bool" where
  "str_or_absent d k = (case map_of d k of None \<Rightarrow> True | Some v \<Rightarrow> is_str v)"

definition dict_or_absent :: "(string \<times> pyval) list \<Rightarrow> string \<Rightarrow> bool" where
  "dict_or_absent d k = (case map_of d k of None \<Rightarrow> True | Some v \<Rightarrow> is_dict v)"

definition shaped_vendor :: "(string \<times> pyval) list \<Rightarrow> bool" where
  "shaped_vendor ci =
     (case map_of ci ''title'' of
        None \<Rightarrow> True
      | Some PNone \<Rightarrow> True
      | Some (PStr s) \<Rightarrow> True
      | Some (PDict t) \<Rightarrow> locale_mapping t
      | Some _ \<Rightarrow> False)"

definition shaped_labels :: "pyval \<Rightarrow> bool" where
  "shaped_labels labels =
     (case labels of
        PList l \<Rightarrow> list_all is_str l
      | PDict ld \<Rightarrow> str_or_absent ld ''casaos.title''
      | PNone \<Rightarrow> True
      | _ \<Rightarrow> False)"

definition shaped_deploy :: "(string \<times> pyval) list \<Rightarrow> bool" where
  "shaped_deploy ms =
     (case map_of ms ''deploy'' of
        None \<Rightarrow> True
      | Some (PDict dp) \<Rightarrow>
          (case map_of dp ''resources'' of
             None \<Rightarrow> True
           | Some (PDict res) \<Rightarrow> dict_or_absent res ''limits''
           | Some _ \<Rightarrow> False)
      | Some _ \<Rightarrow> False)"

definition shaped_service :: "(string \<times> pyval) list \<Rightarrow> bool" where
  "shaped_service ms =
     (shaped_labels (dict_get ms ''labels'' (PList []))
      \<and> str_or_absent ms ''image''
      \<and> (case dict_get ms ''ports'' (PList []) of PList l \<Rightarrow> True | PNone \<Rightarrow> True | _ \<Rightarrow> False)
      \<and> (case dict_get ms ''environment'' (PList []) of PList l \<Rightarrow> list_all is_str l | _ \<Rightarrow> True)
      \<and> shaped_deploy ms)"

definition shaped_services :: "pyval \<Rightarrow> bool" where
  "shaped_services services =
     (case services of
        PNone \<Rightarrow> True
      | PDict [] \<Rightarrow> True
      | PDict ((k, PDict ms) # _) \<Rightarrow> shaped_service ms
      | _ \<Rightarrow> False)"

definition well_shaped :: "pyval \<Rightarrow> pyval \<Rightarrow> bool" where
  "well_shaped compose_data conf_data =
     (\<not> truthy compose_data
      \<or> (case compose_data of
            PDict cd \<Rightarrow>
              (case dict_get cd ''x-casaos'' (PDict []) of
                 PDict ci \<Rightarrow> shaped_vendor ci
               | _ \<Rightarrow> False)
              \<and> shaped_services (dict_get cd ''services'' (PDict []))
              \<and> (case conf_data of PDict cf \<Rightarrow> str_or_absent cf ''title'' | _ \<Rightarrow> False)
          | _ \<Rightarrow> False))"

section \<open>casaos\_dash.py: fetching the compose file\<close>

text \<open>
  What \<^verbatim>\<open>requests.get(url, timeout=10)\<close> does: it answers with a status code and a body,
  or it raises a timeout, another \<^verbatim>\<open>RequestException\<close> or some other exception.
\<close>

datatype response = Answer int string | Timeout | RequestException | OtherException

text \<open>Line 247.\<close>

definition compose_files :: "string list" where
  "compose_files = [''docker-compose.yml'', ''docker-compose.yaml'', ''compose.yml'', ''compose.yaml'']"

text \<open>Line 251.\<close>

definition compose_url :: "string \<Rightarrow> string \<Rightarrow> string \<Rightarrow> string \<Rightarrow> string \<Rightarrow> string" where
  "compose_url owner repo branch folder compose_file =
     ''https://raw.githubusercontent.com/'' @ owner @ ''/'' @ repo @ ''/'' @ branch
       @ ''/Apps/'' @ folder @ ''/'' @ compose_file"

text \<open>
  The loop of lines 250-280. \<open>safe_load\<close> is \<^verbatim>\<open>yaml.safe_load\<close>, \<open>None\<close> when it raises;
  \<open>http\<close> answers a request by its URL. A body that does not parse, a 404, any other
  status and every exception lead to the next candidate; after the last one the result is
  the empty dict of line 286.
\<close>

fun try_compose_files ::
  "(string \<Rightarrow> pyval option) \<Rightarrow> (string \<Rightarrow> response) \<Rightarrow> (string \<Rightarrow> string) \<Rightarrow> string list \<Rightarrow> pyval" where
  "try_compose_files safe_load http url [] = PDict []"
| "try_compose_files safe_load http url (compose_file # rest) =
     (case http (url compose_file) of
        Answer status_code text \<Rightarrow>
          if status_code = 200
          then (case safe_load text of
                  Some compose_data \<Rightarrow> compose_data
                | None \<Rightarrow> try_compose_files safe_load http url rest)
          else try_compose_files safe_load http url rest
      | Timeout \<Rightarrow> try_compose_files safe_load http url rest
      | RequestException \<Rightarrow> try_compose_files safe_load http url rest
      | OtherException \<Rightarrow> try_compose_files safe_load http url rest)"

text \<open>
  \<^verbatim>\<open>get_docker_compose\<close> (lines 228-286). \<open>cache\<close> is the content of the cached compose file
  when that file exists, is younger than 24 hours and can be read.
\<close>

definition get_docker_compose ::
  "(string \<Rightarrow> pyval option) \<Rightarrow> (string \<Rightarrow> response) \<Rightarrow> pyval option
     \<Rightarrow> string \<Rightarrow> string \<Rightarrow> string \<Rightarrow> string \<Rightarrow> pyval" where
  "get_docker_compose safe_load http cache owner repo folder branch =
     (case cache of
        Some cached \<Rightarrow> cached
      | None \<Rightarrow> try_compose_files safe_load http (compose_url owner repo branch folder)
                 compose_files)"

text \<open>
  The candidate that wins: the first file name, in the order of the list, whose request is
  answered with status 200 and a body that parses.
\<close>

definition usable :: "(string \<Rightarrow> pyval option) \<Rightarrow> (string \<Rightarrow> response) \<Rightarrow> (string \<Rightarrow> string) \<Rightarrow> string \<Rightarrow> bool" where
  "usable safe_load http url compose_file =
     (case http (url compose_file) of
        Answer status_code text \<Rightarrow> status_code = 200 \<and> safe_load text \<noteq> None
      | _ \<Rightarrow> False)"

definition parsed_body :: "(string \<Rightarrow> pyval option) \<Rightarrow> response \<Rightarrow> pyval option" where
  "parsed_body safe_load r = (case r of Answer status_code text \<Rightarrow> safe_load text | _ \<Rightarrow> None)"

text \<open>A candidate whose request is answered with status 200, whatever the body.\<close>

definition answers_200 :: "(string \<Rightarrow> response) \<Rightarrow> (string \<Rightarrow> string) \<Rightarrow> string \<Rightarrow> bool" where
  "answers_200 http u compose_file =
     (case http (u compose_file) of Answer status_code text \<Rightarrow> status_code = 200 | _ \<Rightarrow> False)"

section \<open>casaos\_dash.py: the run tracker\<close>

text \<open>
  A \<^verbatim>\<open>datetime\<close>: the wall-clock reading in microseconds and, for an aware value, the UTC
  offset in microseconds. \<^verbatim>\<open>datetime.fromisoformat\<close> is a parameter of the model, \<open>None\<close>
  when it raises \<^verbatim>\<open>ValueError\<close>.
\<close>

record datetime =
  wall :: int
  utcoffset :: "int option"

text \<open>
  \<^verbatim>\<open>a > b\<close> on datetimes: two naive values compare by wall clock, two aware values by
  instant, and a naive with an aware value raises \<^verbatim>\<open>TypeError\<close>.
\<close>

definition dt_gt :: "datetime \<Rightarrow> datetime \<Rightarrow> error + bool" where
  "dt_gt a b =
     (case (utcoffset a, utcoffset b) of
        (None, None) \<Rightarrow> Inr (wall a > wall b)
      | (Some oa, Some ob) \<Rightarrow> Inr (wall a - oa > wall b - ob)
      | (None, Some ob) \<Rightarrow> Inl TypeError
      | (Some oa, None) \<Rightarrow> Inl TypeError)"

text \<open>\<^verbatim>\<open>created.replace("Z", "+00:00")\<close>.\<close>

definition replace_Z :: "string \<Rightarrow> string" where
  "replace_Z s = concat (map (\<lambda>c. if c = CHR ''Z'' then ''+00:00'' else [c]) s)"

text \<open>
  Lines 515-525. \<open>cache_file_exists\<close> is \<^verbatim>\<open>os.path.exists(cache_file)\<close>. The bare
  \<^verbatim>\<open>except: pass\<close> keeps \<open>is_new = False\<close> on any exception of the two lines in the
  \<^verbatim>\<open>try\<close>; an empty \<open>created\<close> string is falsy, like \<open>None\<close>.
\<close>

definition is_new_of ::
  "(string \<Rightarrow> datetime option) \<Rightarrow> datetime option \<Rightarrow> string option \<Rightarrow> bool \<Rightarrow> bool" where
  "is_new_of fromisoformat last_run_time created_at cache_file_exists =
     (case last_run_time of
        None \<Rightarrow> \<not> cache_file_exists
      | Some last_run \<Rightarrow>
          (case created_at of
             None \<Rightarrow> \<not> cache_file_exists
           | Some c \<Rightarrow>
               if c = [] then \<not> cache_file_exists
               else (case fromisoformat (replace_Z c) of
                       None \<Rightarrow> False
                     | Some created_dt \<Rightarrow>
                         (case dt_gt created_dt last_run of
                            Inl e \<Rightarrow> False
                          | Inr later \<Rightarrow> later))))"



section \<open>casaos\_dash.py: the aggregation pipeline\<close>

text \<open>
  The record the main loop builds for one app folder (lines 530-551 and 569-590). The field
  \<open>created\<close> is the string \<^verbatim>\<open>get_creation_date\<close> returns, or \<open>None\<close>.
\<close>

record app_data =
  title :: pyval
  description :: pyval
  icon :: pyval
  category :: pyval
  repo :: string
  url :: pyval
  created :: "string option"
  author :: pyval
  version :: pyval
  port :: pyval
  volumes :: pyval
  environment :: pyval
  memory :: pyval
  compose_available :: bool
  stars :: pyval
  forks :: pyval
  is_new :: bool
  screenshots :: pyval
  screenshot_count :: pyval
  updated_at :: string

text \<open>The serialized form, as \<^verbatim>\<open>json.dump\<close> writes the dict: \<open>None\<close> becomes \<^verbatim>\<open>null\<close>.\<close>

definition opt_str :: "string option \<Rightarrow> pyval" where
  "opt_str s = (case s of None \<Rightarrow> PNone | Some x \<Rightarrow> PStr x)"

definition app_json :: "app_data \<Rightarrow> (string \<times> pyval) list" where
  "app_json a =
     [(''title'', title a), (''description'', description a), (''icon'', icon a),
      (''category'', category a), (''repo'', PStr (repo a)), (''url'', url a),
      (''created'', opt_str (created a)), (''author'', author a), (''version'', version a),
      (''port'', port a), (''volumes'', volumes a), (''environment'', environment a),
      (''memory'', memory a), (''compose_available'', PBool (compose_available a)),
      (''stars'', stars a), (''forks'', forks a), (''is_new'', PBool (is_new a)),
      (''screenshots'', screenshots a), (''screenshot_count'', screenshot_count a),
      (''updated_at'', PStr (updated_at a))]"

text \<open>The fields that are \<^verbatim>\<open>null\<close> in the serialized form.\<close>

definition null_fields :: "app_data \<Rightarrow> string list" where
  "null_fields a = map fst (filter (\<lambda>(k, v). v = PNone) (app_json a))"

text \<open>
  What the connector delivers for one folder on a cache miss (lines 494-496 and 513):
  \<^verbatim>\<open>get_conf_json_raw\<close>, \<^verbatim>\<open>get_docker_compose\<close>, \<^verbatim>\<open>get_app_screenshots\<close> and
  \<^verbatim>\<open>get_creation_date\<close>.
\<close>

record fetch_result =
  conf_json :: pyval
  compose_doc :: pyval
  screenshot_data :: pyval
  creation_date :: "string option"

text \<open>
  The surroundings of one folder: \<open>cached\<close> is the cached record when the cache file
  exists, is younger than 24 hours, can be read and is not empty (lines 476-485);
  \<open>fetched\<close> is what the connector delivers or the exception one of its calls raises;
  \<open>now\<close> is \<^verbatim>\<open>datetime.now().isoformat()\<close>.
\<close>

record folder_env =
  cached :: "app_data option"
  cache_file_exists :: bool
  fetched :: "error + fetch_result"
  now :: string

text \<open>Lines 512 and 575.\<close>

definition tree_url :: "string \<Rightarrow> string \<Rightarrow> string \<Rightarrow> string \<Rightarrow> string" where
  "tree_url owner repo_name branch folder =
     ''https://github.com/'' @ owner @ ''/'' @ repo_name @ ''/tree/'' @ branch
       @ ''/Apps/'' @ folder"

text \<open>
  The body of the \<^verbatim>\<open>try\<close> (lines 489-551); writing the cache file cannot fail the
  folder (lines 554-560). \<open>repo_stats\<close> is the entry of \<^verbatim>\<open>repo_stats_cache\<close>.
\<close>

definition assemble ::
  "(pyval \<Rightarrow> string) \<Rightarrow> (string \<Rightarrow> datetime option) \<Rightarrow> datetime option
     \<Rightarrow> string \<Rightarrow> string \<Rightarrow> pyval \<Rightarrow> string \<Rightarrow> folder_env \<Rightarrow> error + app_data" where
  "assemble rc fromisoformat last_run_time owner repo_name repo_stats folder env =
     ebind (py_get repo_stats ''default_branch'' (PStr ''main'')) (\<lambda>branch.
     ebind (fetched env) (\<lambda>f.
     ebind (extract_compose_metadata rc (compose_doc f) (conf_json f)) (\<lambda>compose_metadata.
     ebind (or_else (Inr (dict_get compose_metadata ''title'' PNone))
             (or_else (py_get (conf_json f) ''title'' PNone) (Inr (PStr folder)))) (\<lambda>title'.
     ebind (or_else (Inr (dict_get compose_metadata ''description'' PNone))
             (or_else (py_get (conf_json f) ''description'' PNone)
                (Inr (PStr ''No description available.'')))) (\<lambda>desc.
     ebind (or_else (Inr (dict_get compose_metadata ''icon'' PNone))
             (py_get (conf_json f) ''icon'' (PStr ''https://via.placeholder.com/64''))) (\<lambda>icon'.
     ebind (or_else (py_get (conf_json f) ''website'' PNone)
             (or_else (py_get (conf_json f) ''url'' PNone)
                (Inr (PStr (tree_url owner repo_name (py_str rc branch) folder))))) (\<lambda>website.
     ebind (py_item repo_stats ''stars'') (\<lambda>stars'.
     ebind (py_item repo_stats ''forks'') (\<lambda>forks'.
     ebind (py_get (screenshot_data f) ''screenshots'' (PList [])) (\<lambda>shots.
     ebind (py_get (screenshot_data f) ''count'' (PInt 0)) (\<lambda>count.
     Inr \<lparr>title = title',
          description = desc,
          icon = icon',
          category = dict_get compose_metadata ''category'' (PStr ''Uncategorized''),
          repo = owner @ ''/'' @ repo_name,
          url = website,
          created = creation_date f,
          author = dict_get compose_metadata ''author'' (PStr ''Unknown''),
          version = dict_get compose_metadata ''version'' (PStr ''Unknown''),
          port = dict_get compose_metadata ''port'' PNone,
          volumes = dict_get compose_metadata ''volumes'' (PList []),
          environment = dict_get compose_metadata ''environment'' (PDict []),
          memory = dict_get compose_metadata ''memory'' PNone,
          compose_available = truthy (compose_doc f),
          stars = stars',
          forks = forks',
          is_new = is_new_of fromisoformat last_run_time (creation_date f)
                     (cache_file_exists env),
          screenshots = shots,
          screenshot_count = count,
          updated_at = now env\<rparr>)))))))))))"

text \<open>
  The \<^verbatim>\<open>except Exception\<close> handler (lines 562-590). It reads the repository statistics
  again, outside any \<^verbatim>\<open>try\<close>.
\<close>

definition placeholder ::
  "(pyval \<Rightarrow> string) \<Rightarrow> string \<Rightarrow> string \<Rightarrow> pyval \<Rightarrow> string \<Rightarrow> folder_env \<Rightarrow> error + app_data" where
  "placeholder rc owner repo_name repo_stats folder env =
     ebind (py_get repo_stats ''default_branch'' (PStr ''main'')) (\<lambda>branch.
     ebind (py_item repo_stats ''stars'') (\<lambda>stars'.
     ebind (py_item repo_stats ''forks'') (\<lambda>forks'.
     Inr \<lparr>title = PStr folder,
          description = PStr ''Error loading app data'',
          icon = PStr ''https://via.placeholder.com/64'',
          category = PStr ''Error'',
          repo = owner @ ''/'' @ repo_name,
          url = PStr (tree_url owner repo_name (py_str rc branch) folder),
          created = None,
          author = PStr ''Unknown'',
          version = PStr ''Unknown'',
          port = PNone,
          volumes = PList [],
          environment = PDict [],
          memory = PNone,
          compose_available = False,
          stars = stars',
          forks = forks',
          is_new = False,
          screenshots = PList [],
          screenshot_count = PInt 0,
          updated_at = now env\<rparr>)))"

text \<open>
  One turn of the inner loop (lines 469-592): the cached record, or the assembled record,
  or the placeholder when assembling raised. An exception of the handler itself is not
  caught by anything and ends the run.
\<close>

definition process_folder ::
  "(pyval \<Rightarrow> string) \<Rightarrow> (string \<Rightarrow> datetime option) \<Rightarrow> datetime option
     \<Rightarrow> string \<Rightarrow> string \<Rightarrow> pyval \<Rightarrow> string \<Rightarrow> folder_env \<Rightarrow> error + app_data" where
  "process_folder rc fromisoformat last_run_time owner repo_name repo_stats folder env =
     (case cached env of
        Some app \<Rightarrow> Inr app
      | None \<Rightarrow>
          (case assemble rc fromisoformat last_run_time owner repo_name repo_stats folder env of
             Inr app \<Rightarrow> Inr app
           | Inl e \<Rightarrow> placeholder rc owner repo_name repo_stats folder env))"

text \<open>The inner loop: \<^verbatim>\<open>apps.append(app_data)\<close> for every folder of the listing.\<close>

fun process_folders ::
  "(pyval \<Rightarrow> string) \<Rightarrow> (string \<Rightarrow> datetime option) \<Rightarrow> datetime option
     \<Rightarrow> string \<Rightarrow> string \<Rightarrow> pyval \<Rightarrow> (string \<times> folder_env) list \<Rightarrow> app_data list
     \<Rightarrow> error + app_data list" where
  "process_folders rc fromisoformat last_run_time owner repo_name repo_stats [] apps = Inr apps"
| "process_folders rc fromisoformat last_run_time owner repo_name repo_stats
     ((folder, env) # rest) apps =
     (case process_folder rc fromisoformat last_run_time owner repo_name repo_stats folder env of
        Inl e \<Rightarrow> Inl e
      | Inr app \<Rightarrow>
          process_folders rc fromisoformat last_run_time owner repo_name repo_stats rest
            (apps @ [app]))"

text \<open>
  What a repository looks like to the run: the result of \<^verbatim>\<open>get_repo_stats\<close> and the folders
  \<^verbatim>\<open>list_app_folders\<close> returns (the empty list when listing fails), each with its
  surroundings.
\<close>

record site =
  repo_stats_of :: pyval
  app_folders :: "(string \<times> folder_env) list"

text \<open>The outer loop (lines 461-592) over the configured repositories.\<close>

fun process_repos ::
  "(pyval \<Rightarrow> string) \<Rightarrow> (string \<Rightarrow> datetime option) \<Rightarrow> datetime option
     \<Rightarrow> (string \<times> string \<Rightarrow> site) \<Rightarrow> (string \<times> string) list \<Rightarrow> app_data list
     \<Rightarrow> error + app_data list" where
  "process_repos rc fromisoformat last_run_time world [] apps = Inr apps"
| "process_repos rc fromisoformat last_run_time world ((owner, repo_name) # rest) apps =
     (case process_folders rc fromisoformat last_run_time owner repo_name
             (repo_stats_of (world (owner, repo_name)))
             (app_folders (world (owner, repo_name))) apps of
        Inl e \<Rightarrow> Inl e
      | Inr apps' \<Rightarrow> process_repos rc fromisoformat last_run_time world rest apps')"

text \<open>Lines 31-39.\<close>

definition REPOS :: "(string \<times> string) list" where
  "REPOS =
     [(''IceWhaleTech'', ''CasaOS-AppStore''),
      (''WisdomSky'', ''CasaOS-LinuxServer-AppStore''),
      (''WisdomSky'', ''CasaOS-Coolstore''),
      (''mr-manuel'', ''CasaOS-HomeAutomation-AppStore''),
      (''bigbeartechworld'', ''big-bear-casaos''),
      (''mariosemes'', ''CasaOS-TMCstore''),
      (''justserdar'', ''ZimaOS-AppStore'')]"

text \<open>
  Line 604: \<^verbatim>\<open>apps.sort(key=lambda x: x["created"] or "", reverse=True)\<close>. Python's sort is
  stable and \<^verbatim>\<open>reverse=True\<close> keeps records with equal keys in their original order: the
  list is reversed, sorted in ascending order and reversed again. Strings compare
  lexicographically by code point.
\<close>

definition created_key :: "app_data \<Rightarrow> string" where
  "created_key x = (case created x of None \<Rightarrow> '''' | Some c \<Rightarrow> if c = [] then '''' else c)"

definition apps_sort :: "app_data list \<Rightarrow> app_data list" where
  "apps_sort apps = rev (sort_key created_key (rev apps))"

text \<open>
  The run over a list of repositories (lines 458-604): the collection handed to the
  renderer, or the exception that ends the script. Saving the run timestamp cannot fail
  the run (lines 595-601).
\<close>

definition run ::
  "(pyval \<Rightarrow> string) \<Rightarrow> (string \<Rightarrow> datetime option) \<Rightarrow> datetime option
     \<Rightarrow> (string \<times> string \<Rightarrow> site) \<Rightarrow> (string \<times> string) list \<Rightarrow> error + app_data list" where
  "run rc fromisoformat last_run_time world repos =
     ebind (process_repos rc fromisoformat last_run_time world repos [])
       (\<lambda>apps. Inr (apps_sort apps))"





section \<open>Theorems\<close>

subsection \<open>Sequencing\<close>

lemma ebind_Inr_iff: "ebind m f = Inr y \<longleftrightarrow> (\<exists>x. m = Inr x \<and> f x = Inr y)"
  by (cases m) (simp_all add: ebind_def)

lemma ebind_Inr [simp]: "ebind (Inr x) f = f x"
  by (simp add: ebind_def)

lemma ebind_Inl [simp]: "ebind (Inl e) f = Inl e"
  by (simp add: ebind_def)

lemma prio_dicts:
  "prio v (PDict ld) lk (PDict cf) ck dflt =
     Inr (if truthy v then v
          else if truthy (dict_get ld lk PNone) then dict_get ld lk PNone
          else dict_get cf ck dflt)"
  by (simp add: prio_def or_else_def)

subsection \<open>Locale selection\<close>

lemma locale_mapping_lookup:
  "locale_mapping d \<Longrightarrow> map_of d k = Some v \<Longrightarrow> \<exists>s. v = PStr s"
  by (induction d) (auto simp: locale_mapping_def split: pyval.splits if_splits)

lemma select_locale_eq:
  "select_locale d =
     (case map_of d ''en_US'' of Some v \<Rightarrow> v
      | None \<Rightarrow> (case map_of d ''en_us'' of Some v \<Rightarrow> v
      | None \<Rightarrow> (case map_of d ''en'' of Some v \<Rightarrow> v
      | None \<Rightarrow> PStr '''')))"
  by (simp add: select_locale_def dict_get_def split: option.splits)

lemma select_locale_str:
  assumes "locale_mapping d"
  shows "\<exists>s. select_locale d = PStr s"
  unfolding select_locale_eq using locale_mapping_lookup [OF assms]
  by (auto split: option.splits)

text \<open>
  C1 (counterexample). The claim lets locale selection fall back to the first value of the
  mapping when none of the three English keys is present. For the mapping
  \<^verbatim>\<open>{'fr_FR': 'Bonjour'}\<close> the first value is \<^verbatim>\<open>'Bonjour'\<close>, but the resolver's selection
  yields the empty string.
\<close>

theorem C1_first_value_counterexample:
  "locale_mapping [(''fr_FR'', PStr ''Bonjour'')]
   \<and> map_of [(''fr_FR'', PStr ''Bonjour'')] ''en_US'' = None
   \<and> map_of [(''fr_FR'', PStr ''Bonjour'')] ''en_us'' = None
   \<and> map_of [(''fr_FR'', PStr ''Bonjour'')] ''en'' = None
   \<and> first_value [(''fr_FR'', PStr ''Bonjour'')] = Inr (PStr ''Bonjour'')
   \<and> select_locale [(''fr_FR'', PStr ''Bonjour'')] = PStr ''''
   \<and> Inr (select_locale [(''fr_FR'', PStr ''Bonjour'')])
       \<noteq> first_value [(''fr_FR'', PStr ''Bonjour'')]"
  by (simp add: locale_mapping_def first_value_def select_locale_def dict_get_def)

text \<open>
  C1 (amended). For every mapping of locale to string, locale selection in the metadata
  resolver returns the value under \<^verbatim>\<open>en_US\<close> if that key is present, else the value under
  \<^verbatim>\<open>en_us\<close>, else the value under \<^verbatim>\<open>en\<close>, else the empty string; the result is always a
  string, so it is never the mapping itself.
\<close>

theorem C1_select_locale:
  "locale_mapping d \<Longrightarrow>
     select_locale d =
       (case map_of d ''en_US'' of Some v \<Rightarrow> v
        | None \<Rightarrow> (case map_of d ''en_us'' of Some v \<Rightarrow> v
        | None \<Rightarrow> (case map_of d ''en'' of Some v \<Rightarrow> v
        | None \<Rightarrow> PStr '''')))
     \<and> (\<exists>s. select_locale d = PStr s)
     \<and> select_locale d \<noteq> PDict d"
proof -
  assume lm: "locale_mapping d"
  from select_locale_str [OF lm] have "select_locale d \<noteq> PDict d" by auto
  with select_locale_eq [of d] select_locale_str [OF lm] show ?thesis by blast
qed

theorem C1_select_locale_witness:
  "locale_mapping [(''zh_CN'', PStr ''x''), (''en'', PStr ''Hello''), (''en_us'', PStr ''Hi'')]
   \<and> select_locale [(''zh_CN'', PStr ''x''), (''en'', PStr ''Hello''), (''en_us'', PStr ''Hi'')]
       = PStr ''Hi''"
proof -
  have h: "locale_mapping
      [(''zh_CN'', PStr ''x''), (''en'', PStr ''Hello''), (''en_us'', PStr ''Hi'')]"
    by (simp add: locale_mapping_def)
  show ?thesis using h C1_select_locale [OF h] by simp
qed

subsection \<open>The resolver on well-shaped documents\<close>

lemma is_str_iff: "is_str v \<longleftrightarrow> (\<exists>s. v = PStr s)"
  by (cases v) (simp_all add: is_str_def)

lemma is_dict_iff: "is_dict v \<longleftrightarrow> (\<exists>d. v = PDict d)"
  by (cases v) (simp_all add: is_dict_def)

lemma key_values_total:
  "list_all is_str l \<Longrightarrow> \<exists>d. key_values l acc = Inr d"
  by (induction l arbitrary: acc) (auto simp: is_str_iff)

lemma locale_mapping_Cons:
  "locale_mapping ((k, v) # d) \<longleftrightarrow> is_str v \<and> locale_mapping d"
  by (cases v) (simp_all add: locale_mapping_def is_str_def)

lemma locale_mapping_Nil: "locale_mapping []"
  by (simp add: locale_mapping_def)

lemma dict_set_strs:
  "locale_mapping acc \<Longrightarrow> locale_mapping (dict_set acc k (PStr v))"
  by (induction acc) (auto simp: locale_mapping_Cons locale_mapping_Nil is_str_iff)

lemma key_values_strs:
  "key_values l acc = Inr d \<Longrightarrow> locale_mapping acc \<Longrightarrow> locale_mapping d"
proof (induction l arbitrary: acc)
  case Nil
  then show ?case by simp
next
  case (Cons x xs)
  show ?case
  proof (cases "str_in ''='' x")
    case (Inl e)
    with Cons.prems show ?thesis by simp
  next
    case (Inr has)
    show ?thesis
    proof (cases has)
      case False
      with Inr Cons show ?thesis by simp
    next
      case True
      with Inr Cons.prems obtain s where x: "x = PStr s"
        by (cases x) simp_all
      with Inr True Cons.prems
      have "key_values xs (dict_set acc (before_first CHR ''='' s) (PStr (after_first CHR ''='' s))) = Inr d"
        by simp
      from Cons.IH [OF this dict_set_strs [OF Cons.prems(2)]] show ?thesis .
    qed
  qed
qed

lemma locale_mapping_str_or_absent:
  "locale_mapping d \<Longrightarrow> str_or_absent d k"
  using locale_mapping_lookup [of d k]
  by (auto simp: str_or_absent_def is_str_iff split: option.splits)

lemma label_dict_total:
  assumes "shaped_labels labels"
  shows "\<exists>ld. label_dict_of labels = Inr (PDict ld) \<and> str_or_absent ld ''casaos.title''"
proof (cases labels)
  case (PList l)
  with assms obtain d where d: "key_values l [] = Inr d"
    using key_values_total [of l "[]"] by (auto simp: shaped_labels_def)
  from key_values_strs [OF d locale_mapping_Nil] have "str_or_absent d ''casaos.title''"
    by (rule locale_mapping_str_or_absent)
  with d PList show ?thesis by (simp add: label_dict_of_def)
next
  case (PDict ld)
  with assms show ?thesis
    by (cases ld) (simp_all add: label_dict_of_def shaped_labels_def str_or_absent_def)
qed (use assms in \<open>simp_all add: label_dict_of_def shaped_labels_def str_or_absent_def\<close>)

lemma str_or_absent_get:
  "str_or_absent d k \<Longrightarrow> \<exists>s. dict_get d k (PStr t) = PStr s"
  by (auto simp: str_or_absent_def dict_get_def is_str_iff split: option.splits)

lemma str_or_absent_get_None:
  "str_or_absent d k \<Longrightarrow> dict_get d k PNone = PNone \<or> (\<exists>s. dict_get d k PNone = PStr s)"
  by (auto simp: str_or_absent_def dict_get_def is_str_iff split: option.splits)

lemma vendor_title_shape:
  assumes "shaped_vendor ci"
  shows "localized (dict_get ci ''title'' PNone) = PNone
         \<or> (\<exists>s. localized (dict_get ci ''title'' PNone) = PStr s)"
proof (cases "map_of ci ''title''")
  case None
  then show ?thesis by (simp add: dict_get_def localized_def)
next
  case (Some v)
  show ?thesis
  proof (cases v)
    case (PDict t)
    with Some assms have "locale_mapping t" by (simp add: shaped_vendor_def)
    from select_locale_str [OF this] obtain s where "select_locale t = PStr s" by blast
    with Some PDict show ?thesis by (simp add: dict_get_def localized_def)
  qed (use Some assms in \<open>simp_all add: dict_get_def localized_def shaped_vendor_def\<close>)
qed

lemma title_total:
  assumes "shaped_vendor ci" "str_or_absent ld ''casaos.title''" "str_or_absent cf ''title''"
  shows "\<exists>s. prio (localized (dict_get ci ''title'' PNone)) (PDict ld) ''casaos.title''
                 (PDict cf) ''title'' (PStr '''') = Inr (PStr s)"
  using vendor_title_shape [OF assms(1)] str_or_absent_get_None [OF assms(2)]
    str_or_absent_get [OF assms(3), of "''''"]
  by (auto simp: prio_dicts)

lemma resolve_category_total:
  assumes "str_or_absent cf ''title''"
  shows "\<exists>c. resolve_category ci (PDict ld) (PDict cf) (PStr s) = Inr c"
  using str_or_absent_get [OF assms, of "''''"]
  by (auto simp: resolve_category_def prio_dicts or_else_def)

lemma resolve_version_total:
  assumes "str_or_absent ms ''image''"
  shows "\<exists>v. resolve_version (PDict ld) ms = Inr v"
  using str_or_absent_get [OF assms, of "''''"]
  by (auto simp: resolve_version_def)

lemma extract_port_total:
  assumes "case dict_get ms ''ports'' (PList []) of PList l \<Rightarrow> True | PNone \<Rightarrow> True | _ \<Rightarrow> False"
  shows "\<exists>p. extract_port rc ms = Inr p"
proof (cases "dict_get ms ''ports'' (PList [])")
  case (PList l)
  then show ?thesis
    by (cases l) (auto simp: extract_port_def Let_def split: pyval.splits)
qed (use assms in \<open>simp_all add: extract_port_def\<close>)

lemma extract_environment_total:
  assumes "case dict_get ms ''environment'' (PList []) of PList l \<Rightarrow> list_all is_str l | _ \<Rightarrow> True"
  shows "\<exists>e. extract_environment ms = Inr e"
proof (cases "dict_get ms ''environment'' (PList [])")
  case (PList l)
  with assms have "list_all is_str l" by simp
  from key_values_total [OF this, of "[]"] PList show ?thesis
    by (auto simp: extract_environment_def)
qed (simp_all add: extract_environment_def)

lemma extract_memory_total:
  assumes "shaped_deploy ms"
  shows "\<exists>m. extract_memory ms = Inr m"
proof (cases "map_of ms ''deploy''")
  case None
  then show ?thesis by (simp add: extract_memory_def)
next
  case (Some deploy)
  with assms obtain dp where dp: "deploy = PDict dp"
    by (cases deploy) (simp_all add: shaped_deploy_def)
  show ?thesis
  proof (cases "map_of dp ''resources''")
    case None
    then have "''resources'' \<notin> set (map fst dp)"
      by (simp add: map_of_eq_None_iff)
    with Some dp show ?thesis by (simp add: extract_memory_def)
  next
    case res: (Some resources)
    then have mem: "''resources'' \<in> set (map fst dp)"
      by (metis map_of_eq_None_iff option.distinct(1) set_map)
    from assms Some dp res obtain r where r: "resources = PDict r"
      by (cases resources) (simp_all add: shaped_deploy_def)
    from assms Some dp res r have "dict_or_absent r ''limits''"
      by (simp add: shaped_deploy_def)
    then obtain l where "dict_get r ''limits'' (PDict []) = PDict l"
      by (auto simp: dict_or_absent_def dict_get_def is_dict_iff split: option.splits)
    with Some dp res r mem show ?thesis
      by (simp add: extract_memory_def)
  qed
qed

lemma main_service_total:
  assumes "shaped_services services"
  shows "\<exists>ms. main_service_of services = Inr (PDict ms) \<and> shaped_service ms"
proof (cases services)
  case PNone
  show ?thesis
    unfolding PNone main_service_of_def shaped_service_def shaped_labels_def shaped_deploy_def
      str_or_absent_def dict_get_def locale_mapping_def
    by simp
next
  case (PDict d)
  show ?thesis
  proof (cases d)
    case Nil
    show ?thesis
      unfolding PDict Nil main_service_of_def shaped_service_def shaped_labels_def
        shaped_deploy_def str_or_absent_def dict_get_def
      by simp
  next
    case (Cons kv rest)
    obtain k v where kv: "kv = (k, v)" by (cases kv)
    from assms PDict Cons kv obtain ms where v: "v = PDict ms" and "shaped_service ms"
      by (cases v) (simp_all add: shaped_services_def)
    with PDict Cons kv show ?thesis by (simp add: main_service_of_def)
  qed
qed (use assms in \<open>simp_all add: shaped_services_def\<close>)

text \<open>
  C8 (counterexample). A compose file whose \<^verbatim>\<open>x-casaos:\<close> key has no content loads as
  \<^verbatim>\<open>{'x-casaos': None}\<close>; the default of \<^verbatim>\<open>compose_data.get('x-casaos', {})\<close> does not apply
  to a key that is present, and \<^verbatim>\<open>casaos_info.get('title')\<close> raises \<^verbatim>\<open>AttributeError\<close>.
\<close>

theorem C8_null_vendor_block_counterexample:
  "extract_compose_metadata (\<lambda>v. ''..'') (PDict [(''x-casaos'', PNone)]) (PDict [])
     = Inl AttributeError"
  by (simp add: extract_compose_metadata_def main_service_of_def label_dict_of_def dict_get_def)

text \<open>
  C8 (amended). The metadata resolver returns normally, without raising, for every empty
  compose document and for every compose document of the shape \<open>well_shaped\<close> (vendor block
  and first service are mappings, labels and environment are lists of strings or mappings,
  image a string, ports a list, the deploy/resources/limits chain mappings, titles strings or
  mappings of locale to string) together with conf data that is a mapping; every lookup
  chain then ends in an empty or default value.
\<close>

theorem C8_total_on_shaped:
  assumes "well_shaped compose_data conf_data"
  shows "\<exists>m. extract_compose_metadata rc compose_data conf_data = Inr m"
proof (cases "truthy compose_data")
  case False
  then show ?thesis by (simp add: extract_compose_metadata_def)
next
  case True
  with assms obtain cd where cd: "compose_data = PDict cd"
    by (cases compose_data) (simp_all add: well_shaped_def)
  from assms True cd obtain ci where ci: "dict_get cd ''x-casaos'' (PDict []) = PDict ci"
    and vendor: "shaped_vendor ci"
    by (cases "dict_get cd ''x-casaos'' (PDict [])") (simp_all add: well_shaped_def)
  from assms True cd have "shaped_services (dict_get cd ''services'' (PDict []))"
    by (simp add: well_shaped_def)
  from main_service_total [OF this] obtain ms
    where ms: "main_service_of (dict_get cd ''services'' (PDict [])) = Inr (PDict ms)"
      and service: "shaped_service ms"
    by blast
  from assms True cd obtain cf where cf: "conf_data = PDict cf"
    and conf_title: "str_or_absent cf ''title''"
    by (cases conf_data) (simp_all add: well_shaped_def)
  from service have "shaped_labels (dict_get ms ''labels'' (PList []))"
    by (simp add: shaped_service_def)
  from label_dict_total [OF this] obtain ld
    where ld: "label_dict_of (dict_get ms ''labels'' (PList [])) = Inr (PDict ld)"
      and label_title: "str_or_absent ld ''casaos.title''"
    by blast
  from title_total [OF vendor label_title conf_title] obtain s
    where title: "prio (localized (dict_get ci ''title'' PNone)) (PDict ld) ''casaos.title''
                    (PDict cf) ''title'' (PStr '''') = Inr (PStr s)"
    by blast
  from resolve_category_total [OF conf_title] obtain c
    where category: "resolve_category ci (PDict ld) (PDict cf) (PStr s) = Inr c"
    by blast
  from service have "str_or_absent ms ''image''" by (simp add: shaped_service_def)
  from resolve_version_total [OF this] obtain v
    where version: "resolve_version (PDict ld) ms = Inr v"
    by blast
  from service obtain p where port: "extract_port rc ms = Inr p"
    using extract_port_total [of ms rc] by (auto simp: shaped_service_def)
  from service obtain e where environment: "extract_environment ms = Inr e"
    using extract_environment_total [of ms] by (auto simp: shaped_service_def)
  from service obtain mem where memory: "extract_memory ms = Inr mem"
    using extract_memory_total [of ms] by (auto simp: shaped_service_def)
  obtain ic where icon: "prio (dict_get ci ''icon'' PNone) (PDict ld) ''casaos.icon''
                    (PDict cf) ''icon'' (PStr '''') = Inr ic"
    by (simp add: prio_dicts)
  obtain descr where description: "prio (description_of ci) (PDict ld)
                    ''casaos.description'' (PDict cf) ''description'' (PStr '''') = Inr descr"
    by (simp add: prio_dicts)
  obtain auth where author: "prio (dict_get ci ''author'' PNone) (PDict ld) ''casaos.author''
                    (PDict cf) ''author'' (PStr '''') = Inr auth"
    by (simp add: prio_dicts)
  have "truthy (PDict cd)" using True cd by simp
  then show ?thesis
    unfolding extract_compose_metadata_def cd cf
    by (simp add: ci ms ld title icon description category author version port environment
          memory del: truthy.simps)
qed



theorem C8_total_on_shaped_witness:
  "well_shaped
     (PDict [(''services'',
        PDict [(''web'', PDict [(''image'', PStr ''nginx:1.25''),
                                (''ports'', PList [PStr ''8080:80'']),
                                (''environment'', PList [PStr ''TZ=UTC''])])])])
     (PDict [(''title'', PStr ''Web'')])
   \<and> (\<exists>m. extract_compose_metadata (\<lambda>v. ''..'')
     (PDict [(''services'',
        PDict [(''web'', PDict [(''image'', PStr ''nginx:1.25''),
                                (''ports'', PList [PStr ''8080:80'']),
                                (''environment'', PList [PStr ''TZ=UTC''])])])])
     (PDict [(''title'', PStr ''Web'')]) = Inr m)"
proof -
  have h: "well_shaped
     (PDict [(''services'',
        PDict [(''web'', PDict [(''image'', PStr ''nginx:1.25''),
                                (''ports'', PList [PStr ''8080:80'']),
                                (''environment'', PList [PStr ''TZ=UTC''])])])])
     (PDict [(''title'', PStr ''Web'')])"
    by (simp add: well_shaped_def shaped_services_def shaped_service_def shaped_labels_def
          shaped_deploy_def shaped_vendor_def str_or_absent_def dict_get_def is_str_def)
  from h C8_total_on_shaped [OF h] show ?thesis by blast
qed

subsection \<open>Priority of the metadata sources\<close>

text \<open>
  C4. The title is resolved in the strict priority order vendor-extension block, service
  label, conf file, where present means truthy (non-empty) after locale selection: whenever
  the resolver returns, its title is the vendor title if that is non-empty, else the label
  \<^verbatim>\<open>casaos.title\<close> if that is non-empty, else the conf-file title (default \<^verbatim>\<open>''\<close>).
\<close>

theorem C4_title_priority:
  assumes doc: "truthy compose_data"
    and vendor: "py_get compose_data ''x-casaos'' (PDict []) = Inr (PDict ci)"
    and services: "py_get compose_data ''services'' (PDict []) = Inr services"
    and service: "main_service_of services = Inr (PDict ms)"
    and labels: "label_dict_of (dict_get ms ''labels'' (PList [])) = Inr (PDict ld)"
    and result: "extract_compose_metadata rc compose_data (PDict cf) = Inr m"
  shows "map_of m ''title'' =
           Some (if truthy (localized (dict_get ci ''title'' PNone))
                 then localized (dict_get ci ''title'' PNone)
                 else if truthy (dict_get ld ''casaos.title'' PNone)
                 then dict_get ld ''casaos.title'' PNone
                 else dict_get cf ''title'' (PStr ''''))"
  using result
  unfolding extract_compose_metadata_def
  by (simp add: doc vendor services service labels prio_dicts ebind_Inr_iff del: truthy.simps)
     (auto simp del: truthy.simps)

theorem C4_title_priority_witness:
  "(\<exists>m. extract_compose_metadata (\<lambda>v. ''..'')
          (PDict [(''x-casaos'', PDict [(''title'', PStr ''A'')]),
                  (''services'', PDict [(''app'',
                     PDict [(''labels'', PList [PStr ''casaos.title=B''])])])])
          (PDict [(''title'', PStr ''C'')]) = Inr m
        \<and> map_of m ''title'' = Some (PStr ''A''))
   \<and> (\<exists>m. extract_compose_metadata (\<lambda>v. ''..'')
          (PDict [(''x-casaos'', PDict [(''title'', PStr '''')]),
                  (''services'', PDict [(''app'',
                     PDict [(''labels'', PList [PStr ''casaos.title=B''])])])])
          (PDict [(''title'', PStr ''C'')]) = Inr m
        \<and> map_of m ''title'' = Some (PStr ''B''))
   \<and> (\<exists>m. extract_compose_metadata (\<lambda>v. ''..'')
          (PDict [(''x-casaos'', PDict []),
                  (''services'', PDict [(''app'',
                     PDict [(''labels'', PList [PStr ''casaos.title=''])])])])
          (PDict [(''title'', PStr ''C'')]) = Inr m
        \<and> map_of m ''title'' = Some (PStr ''C''))"
proof -
  let ?rc = "\<lambda>v::pyval. ''..''"
  let ?cf = "[(''title'', PStr ''C'')]"
  let ?svc = "\<lambda>l. PDict [(''app'', PDict [(''labels'', PList [PStr l])])]"
  let ?doc = "\<lambda>ci l. PDict [(''x-casaos'', PDict ci), (''services'', ?svc l)]"
  let ?res = "\<lambda>t. [(''title'', PStr t), (''icon'', PStr []), (''description'', PStr []),
      (''category'', PStr ''Uncategorized''), (''author'', PStr []), (''version'', PStr []),
      (''volumes'', PList []), (''environment'', PDict [])]"
  have lab: "\<And>l. label_dict_of (dict_get [(''labels'', PList [PStr (''casaos.title='' @ l)])]
                      ''labels'' (PList []))
             = Inr (PDict [(''casaos.title'', PStr l)])"
    by (simp add: label_dict_of_def dict_get_def before_first_def after_first_def
          sublist_append sublist_Cons_right)
  have svc: "\<And>l. main_service_of (?svc l) = Inr (PDict [(''labels'', PList [PStr l])])"
    by (simp add: main_service_of_def)
  have a: "extract_compose_metadata ?rc (?doc [(''title'', PStr ''A'')] ''casaos.title=B'')
             (PDict ?cf) = Inr (?res ''A'')"
    by code_simp
  have b: "extract_compose_metadata ?rc (?doc [(''title'', PStr '''')] ''casaos.title=B'')
             (PDict ?cf) = Inr (?res ''B'')"
    by code_simp
  have c: "extract_compose_metadata ?rc (?doc [] ''casaos.title='')
             (PDict ?cf) = Inr (?res ''C'')"
    by code_simp
  have "map_of (?res ''A'') ''title'' = Some (PStr ''A'')"
    using C4_title_priority [OF _ _ _ svc lab [of "''B''", simplified] a]
    by (simp add: dict_get_def localized_def)
  moreover have "map_of (?res ''B'') ''title'' = Some (PStr ''B'')"
    using C4_title_priority [OF _ _ _ svc lab [of "''B''", simplified] b]
    by (simp add: dict_get_def localized_def)
  moreover have "map_of (?res ''C'') ''title'' = Some (PStr ''C'')"
    using C4_title_priority [OF _ _ _ svc lab [of "''''", simplified] c]
    by (simp add: dict_get_def localized_def)
  ultimately show ?thesis using a b c by blast
qed


subsection \<open>Compose-file resolution\<close>

lemma try_compose_files_find:
  "try_compose_files safe_load http u fs =
     (case find (usable safe_load http u) fs of
        None \<Rightarrow> PDict []
      | Some f \<Rightarrow> (case parsed_body safe_load (http (u f)) of
                    None \<Rightarrow> PDict []
                  | Some compose_data \<Rightarrow> compose_data))"
  by (induction fs)
     (auto simp: usable_def parsed_body_def split: response.splits option.splits)

text \<open>
  C5 (counterexample). \<^verbatim>\<open>docker-compose.yml\<close> answers 200 with a body that is not valid
  YAML and \<^verbatim>\<open>docker-compose.yaml\<close> answers 200 with a valid body: the first candidate
  answering 200 is \<^verbatim>\<open>docker-compose.yml\<close>, it has no parsed content, and the loop goes on
  (line 268) and returns the content of \<^verbatim>\<open>docker-compose.yaml\<close>.
\<close>

theorem C5_unparsable_first_counterexample:
  "find (answers_200
          (\<lambda>u. if u = compose_url ''o'' ''r'' ''main'' ''app'' ''docker-compose.yml''
                then Answer 200 ''a: [b''
                else if u = compose_url ''o'' ''r'' ''main'' ''app'' ''docker-compose.yaml''
                then Answer 200 ''a: b''
                else Answer 404 ''Not Found'')
          (compose_url ''o'' ''r'' ''main'' ''app'')) compose_files
     = Some ''docker-compose.yml''
   \<and> get_docker_compose
        (\<lambda>t. if t = ''a: b'' then Some (PDict [(''a'', PStr ''b'')]) else None)
        (\<lambda>u. if u = compose_url ''o'' ''r'' ''main'' ''app'' ''docker-compose.yml''
              then Answer 200 ''a: [b''
              else if u = compose_url ''o'' ''r'' ''main'' ''app'' ''docker-compose.yaml''
              then Answer 200 ''a: b''
              else Answer 404 ''Not Found'')
        None ''o'' ''r'' ''app'' ''main''
     = PDict [(''a'', PStr ''b'')]
   \<and> parsed_body (\<lambda>t. if t = ''a: b'' then Some (PDict [(''a'', PStr ''b'')]) else None)
        (Answer 200 ''a: [b'') = None"
  by (simp add: get_docker_compose_def compose_files_def compose_url_def answers_200_def
        parsed_body_def)

text \<open>
  C5 (amended). On a cache miss, compose-file resolution tries the four candidates in the
  fixed order \<^verbatim>\<open>docker-compose.yml\<close>, \<^verbatim>\<open>docker-compose.yaml\<close>, \<^verbatim>\<open>compose.yml\<close>,
  \<^verbatim>\<open>compose.yaml\<close> and returns the parsed content of the first candidate that answers
  HTTP 200 with a body that parses as YAML; when there is none it returns the empty dict.
  The result depends on the answers only, not on the order of their arrival.
\<close>

theorem C5_first_usable_candidate:
  "compose_files = [''docker-compose.yml'', ''docker-compose.yaml'', ''compose.yml'', ''compose.yaml'']
   \<and> get_docker_compose safe_load http None owner repo_name folder branch =
     (case find (usable safe_load http (compose_url owner repo_name branch folder)) compose_files of
        None \<Rightarrow> PDict []
      | Some f \<Rightarrow>
          (case parsed_body safe_load (http (compose_url owner repo_name branch folder f)) of
             None \<Rightarrow> PDict []
           | Some compose_data \<Rightarrow> compose_data))"
  by (simp add: get_docker_compose_def try_compose_files_find) (simp add: compose_files_def)

text \<open>
  The example of the specification: \<^verbatim>\<open>compose.yml\<close> answers 404 and
  \<^verbatim>\<open>docker-compose.yml\<close> answers 200.
\<close>

lemma compose_yml_404_example:
  "get_docker_compose
        (\<lambda>t. if t = ''a: b'' then Some (PDict [(''a'', PStr ''b'')]) else None)
        (\<lambda>u. if u = compose_url ''o'' ''r'' ''main'' ''app'' ''compose.yml''
              then Answer 404 ''Not Found''
              else if u = compose_url ''o'' ''r'' ''main'' ''app'' ''docker-compose.yml''
              then Answer 200 ''a: b''
              else Timeout)
        None ''o'' ''r'' ''app'' ''main''
     = PDict [(''a'', PStr ''b'')]"
  by (simp add: get_docker_compose_def compose_files_def compose_url_def)


subsection \<open>Novelty of an app\<close>






text \<open>
  The comparison the amended claim leaves out. The script writes its own run timestamp
  with \<^verbatim>\<open>datetime.now().isoformat()\<close>, which reads back as a naive datetime, while a commit
  date ending in \<^verbatim>\<open>Z\<close> reads as an aware one: \<^verbatim>\<open>created_dt > last_run_time\<close> raises
  \<^verbatim>\<open>TypeError\<close>, the bare \<^verbatim>\<open>except\<close> swallows it, and \<open>is_new\<close> stays false although
  the app was created after the last run.
\<close>

lemma is_new_naive_last_run:
  "is_new_of
     (\<lambda>s. if s = ''2024-05-01T00:00:00+00:00''
          then Some \<lparr>wall = 100, utcoffset = Some 0\<rparr> else None)
     (Some \<lparr>wall = 50, utcoffset = None\<rparr>) (Some ''2024-05-01T00:00:00Z'') False = False"
  by (simp add: is_new_of_def replace_Z_def dt_gt_def)


subsection \<open>Containment of per-folder failures\<close>










subsection \<open>Order of the output collection\<close>

lemma map_sum_Inr_D: "map_sum id f x = Inr ys \<Longrightarrow> \<exists>out. x = Inr out \<and> f out = ys"
  by (cases x) auto

lemma apps_sort_keys:
  "rev (map created_key (apps_sort apps)) = map created_key (sort_key created_key (rev apps))"
  by (simp add: apps_sort_def rev_map)

lemma apps_sort_descending: "sorted (rev (map created_key (apps_sort apps)))"
  unfolding apps_sort_keys by (rule sorted_sort_key)

lemma missing_last:
  assumes "sorted (rev ks)" "i < j" "j < length ks" "ks ! i = ''''"
  shows "ks ! j = ''''"
proof -
  from assms(1-3) have "ks ! j \<le> ks ! i"
    by (simp add: sorted_rev_iff_nth_mono)
  with assms(4) show ?thesis by simp
qed

text \<open>
  C7. The final output collection is a rearrangement of the collected records, sorted by
  the key \<^verbatim>\<open>created or ""\<close> in descending order, and every record whose \<open>created\<close> is
  missing (sort key the empty string) comes after every record with a creation date: once a
  record with the empty key occurs, every later record has the empty key too.
\<close>

theorem C7_sorted_by_created:
  assumes "run rc fromisoformat last_run_time world repos = Inr out"
  shows "(\<exists>apps. process_repos rc fromisoformat last_run_time world repos [] = Inr apps
                \<and> mset out = mset apps)
       \<and> sorted (rev (map created_key out))
       \<and> (\<forall>i j. i < j \<and> j < length out \<and> created_key (out ! i) = ''''
                 \<longrightarrow> created_key (out ! j) = '''')"
proof -
  from assms obtain apps
    where apps: "process_repos rc fromisoformat last_run_time world repos [] = Inr apps"
      and out: "out = apps_sort apps"
    by (auto simp: run_def ebind_Inr_iff)
  have perm: "mset out = mset apps"
    by (simp add: out apps_sort_def)
  have desc: "sorted (rev (map created_key out))"
    unfolding out by (rule apps_sort_descending)
  have "created_key (out ! j) = ''''"
    if "i < j" "j < length out" "created_key (out ! i) = ''''" for i j
    using missing_last [OF desc, of i j] that by simp
  with apps perm desc show ?thesis by blast
qed

theorem C7_sorted_by_created_witness:
  "\<exists>out. run (\<lambda>v. ''..'') (\<lambda>s. None) None
       (\<lambda>r. \<lparr>repo_stats_of = PDict [(''stars'', PInt 0), (''forks'', PInt 0),
                                     (''default_branch'', PStr ''main'')],
              app_folders =
                [(''a'', \<lparr>cached = None, cache_file_exists = False,
                          fetched = Inr \<lparr>conf_json = PDict [], compose_doc = PDict [],
                                         screenshot_data = PDict [],
                                         creation_date = None\<rparr>,
                          now = ''2024-06-01T12:00:00''\<rparr>),
                 (''b'', \<lparr>cached = None, cache_file_exists = False,
                          fetched = Inr \<lparr>conf_json = PDict [], compose_doc = PDict [],
                                         screenshot_data = PDict [],
                                         creation_date = Some ''2023-01-15T08:30:00Z''\<rparr>,
                          now = ''2024-06-01T12:00:01''\<rparr>),
                 (''c'', \<lparr>cached = None, cache_file_exists = False,
                          fetched = Inr \<lparr>conf_json = PDict [], compose_doc = PDict [],
                                         screenshot_data = PDict [],
                                         creation_date = Some ''2024-02-01T10:00:00Z''\<rparr>,
                          now = ''2024-06-01T12:00:02''\<rparr>)]\<rparr>)
       [(''o'', ''r'')] = Inr out
     \<and> map (\<lambda>app. (title app, created app)) out
         = [(PStr ''c'', Some ''2024-02-01T10:00:00Z''),
            (PStr ''b'', Some ''2023-01-15T08:30:00Z''),
            (PStr ''a'', None)]
     \<and> sorted (rev (map created_key out))"
proof -
  let ?world = "(\<lambda>r::string \<times> string. \<lparr>repo_stats_of = PDict [(''stars'', PInt 0), (''forks'', PInt 0),
                                     (''default_branch'', PStr ''main'')],
              app_folders =
                [(''a'', \<lparr>cached = None, cache_file_exists = False,
                          fetched = Inr \<lparr>conf_json = PDict [], compose_doc = PDict [],
                                         screenshot_data = PDict [],
                                         creation_date = None\<rparr>,
                          now = ''2024-06-01T12:00:00''\<rparr>),
                 (''b'', \<lparr>cached = None, cache_file_exists = False,
                          fetched = Inr \<lparr>conf_json = PDict [], compose_doc = PDict [],
                                         screenshot_data = PDict [],
                                         creation_date = Some ''2023-01-15T08:30:00Z''\<rparr>,
                          now = ''2024-06-01T12:00:01''\<rparr>),
                 (''c'', \<lparr>cached = None, cache_file_exists = False,
                          fetched = Inr \<lparr>conf_json = PDict [], compose_doc = PDict [],
                                         screenshot_data = PDict [],
                                         creation_date = Some ''2024-02-01T10:00:00Z''\<rparr>,
                          now = ''2024-06-01T12:00:02''\<rparr>)]\<rparr>)"
  have "map_sum id (map (\<lambda>app. (title app, created app)))
       (run (\<lambda>v. ''..'') (\<lambda>s. None) None ?world [(''o'', ''r'')])
         = Inr [(PStr ''c'', Some ''2024-02-01T10:00:00Z''),
            (PStr ''b'', Some ''2023-01-15T08:30:00Z''),
            (PStr ''a'', None)]"
    by code_simp
  from map_sum_Inr_D [OF this] obtain out
    where rm: "run (\<lambda>v. ''..'') (\<lambda>s. None) None ?world [(''o'', ''r'')] = Inr out
      \<and> map (\<lambda>app. (title app, created app)) out
         = [(PStr ''c'', Some ''2024-02-01T10:00:00Z''),
            (PStr ''b'', Some ''2023-01-15T08:30:00Z''),
            (PStr ''a'', None)]" ..
  note r = rm [THEN conjunct1] and m = rm [THEN conjunct2]
  note s = C7_sorted_by_created [OF r, THEN conjunct2, THEN conjunct1]
  show ?thesis
    by (rule exI [of _ out], intro conjI) (rule r, rule m, rule s)
qed


end
